theory Spec2Isabelle
  imports Main "HOL-Library.Word"
begin

section \<open>Chatbot demo: the message-exchange adapter of \<^verbatim>\<open>App.tsx\<close>\<close>

text \<open>
  A shallow embedding of the logic of \<^verbatim>\<open>src/chat_demo/chat_demo/src/App.tsx\<close>:
  the live provider \<^verbatim>\<open>getGeminiResponse\<close>, the simulated provider
  \<^verbatim>\<open>getOpenAIResponse\<close>, the router \<^verbatim>\<open>getBotResponse\<close> and the
  handlers \<^verbatim>\<open>handleSendMessage\<close> and \<^verbatim>\<open>handleModelChange\<close> of the
  component \<^verbatim>\<open>App\<close>. Of the rendering, only what decides whether the component
  stays mounted is modelled: whether the text of each message is a value React accepts
  as a child. Markup, styling and scrolling are not modelled.
\<close>

subsection \<open>JavaScript strings\<close>

text \<open>
  A JavaScript string is a sequence of UTF-16 code units. \<open>js\<close> embeds an ASCII
  literal of the source.
\<close>

type_synonym jsstring = "16 word list"

definition js :: "string \<Rightarrow> jsstring" where
  "js s = map of_char s"

text \<open>
  \<^verbatim>\<open>String.prototype.trim\<close> removes the code units of the ECMAScript productions
  WhiteSpace (TAB, VT, FF, ZWNBSP and the Unicode category Zs) and LineTerminator
  (LF, CR, LS, PS) from both ends.
\<close>

definition isWhiteSpace :: "16 word \<Rightarrow> bool" where
  "isWhiteSpace c \<longleftrightarrow>
     c \<in> {0x0009, 0x000A, 0x000B, 0x000C, 0x000D, 0x0020, 0x00A0, 0x1680,
          0x2028, 0x2029, 0x202F, 0x205F, 0x3000, 0xFEFF}
     \<or> (0x2000 \<le> c \<and> c \<le> 0x200A)"

definition trim :: "jsstring \<Rightarrow> jsstring" where
  "trim s = rev (dropWhile isWhiteSpace (rev (dropWhile isWhiteSpace s)))"

subsection \<open>JavaScript values\<close>

text \<open>
  The values the code handles: what \<^verbatim>\<open>JSON.parse\<close> produces, and
  \<^verbatim>\<open>undefined\<close>, which property access and optional chaining produce. A number
  is an IEEE double, kept as sign, significand and binary exponent (or an infinity,
  which \<^verbatim>\<open>JSON.parse\<close> gives for a literal out of range); the code only tests
  whether it is zero. An object is kept as the list of its own properties, looked up
  with \<open>map_of\<close>.
\<close>

datatype jsnum = Finite bool nat int | Infinite bool

datatype jsval =
    Undefined
  | Null
  | Bool bool
  | Num jsnum
  | Str jsstring
  | Arr "jsval list"
  | Obj "(jsstring \<times> jsval) list"

datatype exn =
    TypeError
  | SyntaxError
  | ApiRequestFailed nat
  | OtherError jsstring

fun isZero :: "jsnum \<Rightarrow> bool" where
  "isZero (Finite s m e) = (m = 0)"
| "isZero (Infinite s) = False"

text \<open>\<^verbatim>\<open>ToBoolean\<close>: what \<^verbatim>\<open>if\<close> and \<^verbatim>\<open>&&\<close> test.\<close>

fun truthy :: "jsval \<Rightarrow> bool" where
  "truthy Undefined = False"
| "truthy Null = False"
| "truthy (Bool b) = b"
| "truthy (Num n) = (\<not> isZero n)"
| "truthy (Str s) = (s \<noteq> [])"
| "truthy (Arr xs) = True"
| "truthy (Obj kvs) = True"

fun nullish :: "jsval \<Rightarrow> bool" where
  "nullish Undefined = True"
| "nullish Null = True"
| "nullish v = False"

text \<open>
  \<^verbatim>\<open>v.k\<close> for the names the code reads (\<^verbatim>\<open>candidates\<close>, \<^verbatim>\<open>content\<close>,
  \<^verbatim>\<open>parts\<close>, \<^verbatim>\<open>text\<close>), none of which is an inherited property of
  objects, arrays, strings, numbers or booleans: on \<^verbatim>\<open>null\<close> and
  \<^verbatim>\<open>undefined\<close> it throws a TypeError, on an object it is the own property or
  \<^verbatim>\<open>undefined\<close>, on everything else \<^verbatim>\<open>undefined\<close>.
\<close>

fun member :: "jsval \<Rightarrow> jsstring \<Rightarrow> exn + jsval" where
  "member Undefined k = Inl TypeError"
| "member Null k = Inl TypeError"
| "member (Obj kvs) k = Inr (case map_of kvs k of None \<Rightarrow> Undefined | Some v \<Rightarrow> v)"
| "member v k = Inr Undefined"

text \<open>
  \<^verbatim>\<open>v[0]\<close>, the property named \<^verbatim>\<open>"0"\<close>: the first element of an array, the
  first code unit of a string, the own property \<^verbatim>\<open>"0"\<close> of an object.
\<close>

fun index0 :: "jsval \<Rightarrow> exn + jsval" where
  "index0 Undefined = Inl TypeError"
| "index0 Null = Inl TypeError"
| "index0 (Arr []) = Inr Undefined"
| "index0 (Arr (x # xs)) = Inr x"
| "index0 (Str []) = Inr Undefined"
| "index0 (Str (c # cs)) = Inr (Str [c])"
| "index0 (Obj kvs) = Inr (case map_of kvs (js ''0'') of None \<Rightarrow> Undefined | Some v \<Rightarrow> v)"
| "index0 v = Inr Undefined"

text \<open>Optional chaining \<^verbatim>\<open>v?.k\<close> and \<^verbatim>\<open>v?.[0]\<close>.\<close>

definition opt_member :: "jsval \<Rightarrow> jsstring \<Rightarrow> exn + jsval" where
  "opt_member v k = (if nullish v then Inr Undefined else member v k)"

definition opt_index0 :: "jsval \<Rightarrow> exn + jsval" where
  "opt_index0 v = (if nullish v then Inr Undefined else index0 v)"

text \<open>Sequencing of steps that may throw.\<close>

definition andThen :: "exn + 'a \<Rightarrow> ('a \<Rightarrow> exn + 'b) \<Rightarrow> exn + 'b" where
  "andThen r f = (case r of Inl e \<Rightarrow> Inl e | Inr v \<Rightarrow> f v)"

subsection \<open>The network\<close>

text \<open>
  \<^verbatim>\<open>fetch\<close> is a parameter: a function from the request to either the exception
  the promise rejects with, or a response with its status and the outcome of
  \<^verbatim>\<open>response.json()\<close> (the parsed body, or the exception of a body that does not
  parse). \<^verbatim>\<open>response.ok\<close> is true for a status from 200 to 299.
\<close>

record request =
  url :: jsstring
  httpMethod :: jsstring
  headers :: "(jsstring \<times> jsstring) list"
  body :: jsval

record response =
  status :: nat
  json :: "exn + jsval"

type_synonym fetch = "request \<Rightarrow> exn + response"

definition ok :: "response \<Rightarrow> bool" where
  "ok r \<longleftrightarrow> 200 \<le> status r \<and> status r \<le> 299"

subsection \<open>The live provider\<close>

definition systemPrompt :: jsstring where
  "systemPrompt = js ''You are a helpful chatbot assistant. Respond to user queries concisely and professionally. If they ask about a service you can provide, offer to help them and provide a brief description.''"

definition couldNotGenerate :: jsstring where
  "couldNotGenerate = js ''I'm sorry, I couldn't generate a response. Please try again.''"

definition networkIssue :: jsstring where
  "networkIssue = js ''Oops! I seem to be having a network issue or an API issue. Please try again.''"

definition apiUrl :: "jsstring \<Rightarrow> jsstring" where
  "apiUrl apiKey =
     js ''https://generativelanguage.googleapis.com/v1beta/models/gemini-2.5-flash-preview-05-20:generateContent?key='' @ apiKey"

definition payload :: "jsstring \<Rightarrow> jsval" where
  "payload userQuery =
     Obj [(js ''contents'', Arr [Obj [(js ''parts'', Arr [Obj [(js ''text'', Str userQuery)]])]]),
          (js ''tools'', Arr [Obj [(js ''google_search'', Obj [])]]),
          (js ''systemInstruction'',
             Obj [(js ''parts'', Arr [Obj [(js ''text'', Str systemPrompt)]])])]"

definition geminiRequest :: "jsstring \<Rightarrow> jsstring \<Rightarrow> request" where
  "geminiRequest apiKey userMessage =
     \<lparr>url = apiUrl apiKey, httpMethod = js ''POST'',
      headers = [(js ''Content-Type'', js ''application/json'')],
      body = payload userMessage\<rparr>"

text \<open>
  \<^verbatim>\<open>candidate.content?.parts?.[0]?.text\<close>, the condition of line 105, and
  \<^verbatim>\<open>candidate.content.parts[0].text\<close>, the value returned at line 106.
\<close>

definition textOptional :: "jsval \<Rightarrow> exn + jsval" where
  "textOptional candidate =
     andThen (member candidate (js ''content'')) (\<lambda>content.
     andThen (opt_member content (js ''parts'')) (\<lambda>parts.
     andThen (opt_index0 parts) (\<lambda>part.
     opt_member part (js ''text''))))"

definition textStrict :: "jsval \<Rightarrow> exn + jsval" where
  "textStrict candidate =
     andThen (member candidate (js ''content'')) (\<lambda>content.
     andThen (member content (js ''parts'')) (\<lambda>parts.
     andThen (index0 parts) (\<lambda>part.
     member part (js ''text''))))"

text \<open>Lines 103 to 109: the body of the \<^verbatim>\<open>try\<close> block after the status check.\<close>

definition extractText :: "jsval \<Rightarrow> exn + jsval" where
  "extractText result =
     andThen (member result (js ''candidates'')) (\<lambda>candidates.
     andThen (opt_index0 candidates) (\<lambda>candidate.
       if \<not> truthy candidate then Inr (Str couldNotGenerate)
       else andThen (textOptional candidate) (\<lambda>t.
         if truthy t then textStrict candidate
         else Inr (Str couldNotGenerate))))"

text \<open>Lines 92 to 109: the \<^verbatim>\<open>try\<close> block.\<close>

definition tryBlock :: "fetch \<Rightarrow> jsstring \<Rightarrow> jsstring \<Rightarrow> exn + jsval" where
  "tryBlock fetch apiKey userMessage =
     andThen (fetch (geminiRequest apiKey userMessage)) (\<lambda>response.
       if \<not> ok response then Inl (ApiRequestFailed (status response))
       else andThen (json response) extractText)"

text \<open>
  \<^verbatim>\<open>getGeminiResponse\<close>: the result is how the returned promise settles,
  \<open>Inr\<close> the value it resolves to and \<open>Inl\<close> the exception it rejects with. The
  \<^verbatim>\<open>catch\<close> clause turns every exception of the \<^verbatim>\<open>try\<close> block into the
  network-issue string. The API key is \<^verbatim>\<open>import.meta.env.VITE_GEMINI_API_KEY\<close>
  as the template literal renders it. The calls of \<^verbatim>\<open>console.error\<close> are not
  modelled.
\<close>

definition getGeminiResponse :: "fetch \<Rightarrow> jsstring \<Rightarrow> jsstring \<Rightarrow> exn + jsval" where
  "getGeminiResponse fetch apiKey userMessage =
     (case tryBlock fetch apiKey userMessage of
        Inl error \<Rightarrow> Inr (Str networkIssue)
      | Inr v \<Rightarrow> Inr v)"

subsection \<open>The simulated providers and the router\<close>

definition chatgptReply :: jsstring where
  "chatgptReply = js ''This is a response from the simulated ChatGPT. I can help you with creative writing, code snippets, and general knowledge.''"

definition claudeReply :: jsstring where
  "claudeReply = js ''Hello! I am the simulated Claude model. I am known for my coherent and thoughtful long-form responses.''"

definition unknownModelReply :: jsstring where
  "unknownModelReply = js ''I'm not sure which model you want me to use.''"

text \<open>The 500 ms timers of the simulated providers only delay the result.\<close>

definition getOpenAIResponse :: "exn + jsval" where
  "getOpenAIResponse = Inr (Str chatgptReply)"

text \<open>
  \<^verbatim>\<open>getBotResponse\<close>: the \<^verbatim>\<open>switch\<close> compares the model with \<^verbatim>\<open>===\<close>;
  the type \<^verbatim>\<open>AiModel\<close> is erased at run time, so the model is a string and the
  \<^verbatim>\<open>default\<close> branch is part of the function.
\<close>

definition getBotResponse :: "fetch \<Rightarrow> jsstring \<Rightarrow> jsstring \<Rightarrow> jsstring \<Rightarrow> exn + jsval" where
  "getBotResponse fetch apiKey userMessage model =
     (if model = js ''gemini'' then getGeminiResponse fetch apiKey userMessage
      else if model = js ''chatgpt'' then getOpenAIResponse
      else if model = js ''claude'' then Inr (Str claudeReply)
      else Inr (Str unknownModelReply))"

subsection \<open>The state of the component\<close>

text \<open>
  A \<^verbatim>\<open>ChatMessage\<close>. The user's message is built without the property
  \<^verbatim>\<open>model\<close>. The text of a bot message is the value \<^verbatim>\<open>getBotResponse\<close>
  resolved to.
\<close>

datatype Sender = User | Bot

record ChatMessage =
  text' :: jsval
  sender :: Sender
  model :: "jsstring option"

text \<open>
  The four \<^verbatim>\<open>useState\<close> cells of \<^verbatim>\<open>App\<close>, and the timers that
  \<^verbatim>\<open>setTimeout\<close> has registered and that have not completed: each with its
  identifier and the two variables its callback closes over, \<^verbatim>\<open>trimmedInput\<close>
  and \<^verbatim>\<open>selectedModel\<close> as they were when \<^verbatim>\<open>handleSendMessage\<close> ran.
  \<open>mounted\<close> tells whether React still shows the component: a render that throws
  unmounts it, since no error boundary surrounds \<^verbatim>\<open>App\<close>, and the cells then
  hold values that were computed and never shown.
\<close>

record state =
  messages :: "ChatMessage list"
  input :: jsstring
  isTyping :: bool
  selectedModel :: jsstring
  timers :: "(nat \<times> jsstring \<times> jsstring) list"
  nextTimerId :: nat
  mounted :: bool

definition initialState :: state where
  "initialState =
     \<lparr>messages = [], input = [], isTyping = False, selectedModel = js ''gemini'',
      timers = [], nextTimerId = 1, mounted = True\<rparr>"

text \<open>
  The component \<^verbatim>\<open>Message\<close>, lines 44 to 66, puts the text of a message into
  the markup as a child, \<^verbatim>\<open>{text}\<close> at line 54. React renders a string or a
  number, renders nothing for a boolean, \<^verbatim>\<open>null\<close> or \<^verbatim>\<open>undefined\<close>,
  renders the elements of an array, and throws on any other object. Line 211 renders
  one \<^verbatim>\<open>Message\<close> for each element of \<^verbatim>\<open>messages\<close>.
\<close>

fun validChild :: "jsval \<Rightarrow> bool" where
  "validChild (Obj kvs) = False"
| "validChild (Arr xs) = list_all validChild xs"
| "validChild v = True"

definition renders :: "state \<Rightarrow> bool" where
  "renders s \<longleftrightarrow> list_all (\<lambda>m. validChild (text' m)) (messages s)"

text \<open>\<^verbatim>\<open>handleSendMessage\<close>, lines 140 to 158, up to the registration of the timer.\<close>

definition handleSendMessage :: "state \<Rightarrow> state" where
  "handleSendMessage s =
     (let trimmedInput = trim (input s) in
      if trimmedInput = [] then s
      else
        let newUserMessage = \<lparr>text' = Str trimmedInput, sender = User, model = None\<rparr> in
        s\<lparr>messages := messages s @ [newUserMessage],
          input := [],
          isTyping := True,
          timers := timers s @ [(nextTimerId s, trimmedInput, selectedModel s)],
          nextTimerId := Suc (nextTimerId s)\<rparr>)"

text \<open>
  The callback of the timer, lines 152 to 157, applied to the state at the moment the
  promise of \<^verbatim>\<open>getBotResponse\<close> settles. Both updates happen after the
  \<^verbatim>\<open>await\<close>, so a rejected promise would leave the state as it is. React then
  renders the component with the new list; when the text of a message is not a valid
  child that render throws and the component is unmounted. This is the only place
  where a text that is not a string enters the list.
\<close>

definition timerCallback :: "fetch \<Rightarrow> jsstring \<Rightarrow> jsstring \<Rightarrow> jsstring \<Rightarrow> state \<Rightarrow> state" where
  "timerCallback fetch apiKey trimmedInput capturedModel s =
     (case getBotResponse fetch apiKey trimmedInput capturedModel of
        Inl e \<Rightarrow> s
      | Inr botResponseText \<Rightarrow>
          let newBotMessage =
                \<lparr>text' = botResponseText, sender = Bot, model = Some capturedModel\<rparr>;
              updated = s\<lparr>messages := messages s @ [newBotMessage], isTyping := False\<rparr>
          in if renders updated then updated else updated\<lparr>mounted := False\<rparr>)"

text \<open>\<^verbatim>\<open>handleModelChange\<close>, lines 165 to 168.\<close>

definition handleModelChange :: "jsstring \<Rightarrow> state \<Rightarrow> state" where
  "handleModelChange m s = s\<lparr>selectedModel := m, messages := []\<rparr>"

text \<open>
  What can happen to the component: the form is submitted, a model button is clicked,
  the input field is edited (\<^verbatim>\<open>setInput(e.target.value)\<close>), or the exchange of a
  registered timer completes, with the network as it answers that exchange. The form
  is not disabled while a reply is awaited, so several timers can be registered.
  Between the firing of a timer and the settling of \<^verbatim>\<open>getBotResponse\<close> the
  callback reads and writes no state of the component, so the two are one event,
  placed where the promise settles. A completion for an identifier that is not
  registered changes nothing. The handlers and the callback are the updates they
  compute on the cells; \<open>mounted\<close> records whether the result is still shown.
\<close>

datatype event =
    SendMessage
  | ModelChange jsstring
  | InputChange jsstring
  | TimerCompletes nat fetch

definition completeTimer :: "jsstring \<Rightarrow> nat \<Rightarrow> fetch \<Rightarrow> state \<Rightarrow> state" where
  "completeTimer apiKey i fetch s =
     (case map_of (timers s) i of
        None \<Rightarrow> s
      | Some (trimmedInput, capturedModel) \<Rightarrow>
          timerCallback fetch apiKey trimmedInput capturedModel
            (s\<lparr>timers := filter (\<lambda>t. fst t \<noteq> i) (timers s)\<rparr>))"

fun step :: "jsstring \<Rightarrow> event \<Rightarrow> state \<Rightarrow> state" where
  "step apiKey SendMessage s = handleSendMessage s"
| "step apiKey (ModelChange m) s = handleModelChange m s"
| "step apiKey (InputChange v) s = s\<lparr>input := v\<rparr>"
| "step apiKey (TimerCompletes i fetch) s = completeTimer apiKey i fetch s"

fun run :: "jsstring \<Rightarrow> event list \<Rightarrow> state \<Rightarrow> state" where
  "run apiKey [] s = s"
| "run apiKey (e # es) s = run apiKey es (step apiKey e s)"

text \<open>Every registered timer has an identifier that was handed out already.\<close>

definition timersFresh :: "state \<Rightarrow> bool" where
  "timersFresh s \<longleftrightarrow> list_all (\<lambda>t. fst t < nextTimerId s) (timers s)"

fun completes :: "nat \<Rightarrow> event \<Rightarrow> bool" where
  "completes i (TimerCompletes j fetch) = (i = j)"
| "completes i e = False"

subsection \<open>The reply path of the response body, as the specification words it\<close>

text \<open>
  The specification names the reply text by its path in the parsed body,
  \<^verbatim>\<open>candidates[0].content.parts[0].text\<close>: the first candidate's first content
  part's text. \<open>replyText\<close> is that path read on its own, with \<^verbatim>\<open>undefined\<close>
  for a step that is absent: a field is an own property of an object, and the element
  at index 0 is the first element of an array (or the property \<^verbatim>\<open>"0"\<close> of an
  object, which JavaScript reads the same way).
\<close>

fun fieldOf :: "jsstring \<Rightarrow> jsval \<Rightarrow> jsval" where
  "fieldOf k (Obj kvs) = (case map_of kvs k of None \<Rightarrow> Undefined | Some v \<Rightarrow> v)"
| "fieldOf k v = Undefined"

fun firstOf :: "jsval \<Rightarrow> jsval" where
  "firstOf (Arr (x # xs)) = x"
| "firstOf (Obj kvs) = (case map_of kvs (js ''0'') of None \<Rightarrow> Undefined | Some v \<Rightarrow> v)"
| "firstOf v = Undefined"

definition candidateText :: "jsval \<Rightarrow> jsval" where
  "candidateText c =
     fieldOf (js ''text'') (firstOf (fieldOf (js ''parts'') (fieldOf (js ''content'') c)))"

definition replyText :: "jsval \<Rightarrow> jsval" where
  "replyText result = candidateText (firstOf (fieldOf (js ''candidates'') result))"

fun isStr :: "jsval \<Rightarrow> bool" where
  "isStr (Str s) = True"
| "isStr v = False"

subsection \<open>Example inputs\<close>

text \<open>A network that answers every request with one response, or rejects every request.\<close>

definition respondWith :: "response \<Rightarrow> fetch" where
  "respondWith r = (\<lambda>req. Inr r)"

definition fetchRejects :: "exn \<Rightarrow> fetch" where
  "fetchRejects e = (\<lambda>req. Inl e)"

text \<open>The body \<^verbatim>\<open>{"candidates":[{"content":{"parts":[{"text": t}]}}]}\<close>.\<close>

definition bodyWithText :: "jsval \<Rightarrow> jsval" where
  "bodyWithText t =
     Obj [(js ''candidates'',
           Arr [Obj [(js ''content'', Obj [(js ''parts'', Arr [Obj [(js ''text'', t)]])])]])]"

text \<open>A space, a tab and an ideographic space.\<close>

definition blankInput :: jsstring where
  "blankInput = [0x0020, 0x0009, 0x3000]"

definition helloState :: state where
  "helloState = initialState\<lparr>selectedModel := js ''chatgpt'', input := js ''hello''\<rparr>"

definition hiState :: state where
  "hiState = initialState\<lparr>input := js ''hi''\<rparr>"

text \<open>
  A response of status 200 with the body
  \<^verbatim>\<open>{"candidates":[{"content":{"parts":[{"text":{"a":1}}]}}]}\<close>, and one with the
  number 42 for the text.
\<close>

definition objectReply :: jsval where
  "objectReply = Obj [(js ''a'', Num (Finite False 1 0))]"

definition objectReplyFetch :: fetch where
  "objectReplyFetch = respondWith \<lparr>status = 200, json = Inr (bodyWithText objectReply)\<rparr>"

definition numberReplyFetch :: fetch where
  "numberReplyFetch =
     respondWith \<lparr>status = 200, json = Inr (bodyWithText (Num (Finite False 42 0)))\<rparr>"

section \<open>Properties\<close>

subsection \<open>Property access and the reply path\<close>

lemma andThen_Inl [simp]: "andThen (Inl e) f = Inl e"
  by (simp add: andThen_def)

lemma andThen_Inr [simp]: "andThen (Inr v) f = f v"
  by (simp add: andThen_def)

lemma member_fieldOf: "member v k = (if nullish v then Inl TypeError else Inr (fieldOf k v))"
  by (cases v) simp_all

lemma opt_member_fieldOf: "opt_member v k = Inr (fieldOf k v)"
  by (cases v) (simp_all add: opt_member_def)

lemma opt_index0_then_field:
  "andThen (opt_index0 v) (\<lambda>p. Inr (fieldOf k p)) = Inr (fieldOf k (firstOf v))"
proof (cases v)
  case (Arr xs)
  then show ?thesis by (cases xs) (simp_all add: opt_index0_def)
next
  case (Str s)
  then show ?thesis by (cases s) (simp_all add: opt_index0_def)
qed (simp_all add: opt_index0_def)

lemma not_nullish_fieldOf: "\<not> nullish (fieldOf k v) \<Longrightarrow> \<not> nullish v"
  by (cases v) simp_all

lemma truthy_not_nullish: "truthy v \<Longrightarrow> \<not> nullish v"
  by (cases v) simp_all

lemma not_nullish_firstOf: "\<not> nullish (firstOf v) \<Longrightarrow> \<not> nullish v"
  by (cases v) simp_all

lemma index0_firstOf: "\<not> nullish (firstOf v) \<Longrightarrow> index0 v = Inr (firstOf v)"
proof (cases v)
  case (Arr xs)
  assume "\<not> nullish (firstOf v)"
  with Arr show ?thesis by (cases xs) simp_all
qed simp_all

text \<open>The optional chain of line 105 throws only on a nullish candidate.\<close>

lemma textOptional_eq:
  "textOptional c = (if nullish c then Inl TypeError else Inr (candidateText c))"
  by (simp add: textOptional_def candidateText_def member_fieldOf opt_member_fieldOf
        opt_index0_then_field)

text \<open>
  Line 106 reads the same path without optional chaining. Where the condition of line
  105 held, no step of it is nullish, so it does not throw and gives the same value.
\<close>

lemma textStrict_eq:
  assumes "truthy (candidateText c)"
  shows "textStrict c = Inr (candidateText c)"
proof -
  let ?content = "fieldOf (js ''content'') c"
  let ?parts = "fieldOf (js ''parts'') ?content"
  let ?part = "firstOf ?parts"
  from assms have "\<not> nullish (fieldOf (js ''text'') ?part)"
    unfolding candidateText_def by (rule truthy_not_nullish)
  then have part: "\<not> nullish ?part" by (rule not_nullish_fieldOf)
  then have parts: "\<not> nullish ?parts" by (rule not_nullish_firstOf)
  then have content: "\<not> nullish ?content" by (rule not_nullish_fieldOf)
  then have c: "\<not> nullish c" by (rule not_nullish_fieldOf)
  from part have "index0 ?parts = Inr ?part" by (rule index0_firstOf)
  with part parts content c show ?thesis
    by (simp add: textStrict_def candidateText_def member_fieldOf)
qed

lemma candidateText_falsy: "\<not> truthy c \<Longrightarrow> candidateText c = Undefined"
  by (cases c) (simp_all add: candidateText_def)

lemma candidateText_Str [simp]: "candidateText (Str s) = Undefined"
  by (simp add: candidateText_def)

lemma candidate_branch:
  "(if \<not> truthy c then Inr (Str couldNotGenerate)
    else andThen (textOptional c) (\<lambda>t.
      if truthy t then textStrict c else Inr (Str couldNotGenerate))) =
   Inr (if truthy (candidateText c) then candidateText c else Str couldNotGenerate)"
proof (cases "truthy c")
  case False
  then show ?thesis by (simp add: candidateText_falsy)
next
  case True
  then have "\<not> nullish c" by (rule truthy_not_nullish)
  with True show ?thesis by (simp add: textOptional_eq textStrict_eq)
qed

lemma opt_index0_then_candidate:
  "andThen (opt_index0 v)
     (\<lambda>c. Inr (if truthy (candidateText c) then candidateText c else d)) =
   Inr (if truthy (candidateText (firstOf v)) then candidateText (firstOf v) else d)"
proof (cases v)
  case (Arr xs)
  then show ?thesis by (cases xs) (simp_all add: opt_index0_def candidateText_falsy)
next
  case (Str s)
  then show ?thesis by (cases s) (simp_all add: opt_index0_def candidateText_falsy)
qed (simp_all add: opt_index0_def candidateText_falsy)

text \<open>
  Lines 103 to 109 as a whole: a TypeError on a body that parsed to \<^verbatim>\<open>null\<close>,
  otherwise the value at the reply path when it is truthy, otherwise the fallback.
\<close>

lemma extractText_eq:
  "extractText result =
     (if nullish result then Inl TypeError
      else if truthy (replyText result) then Inr (replyText result)
      else Inr (Str couldNotGenerate))"
  by (simp add: extractText_def member_fieldOf candidate_branch opt_index0_then_candidate
        replyText_def)

lemma getGeminiResponse_eq:
  "getGeminiResponse fetch apiKey userMessage =
     Inr (case fetch (geminiRequest apiKey userMessage) of
            Inl e \<Rightarrow> Str networkIssue
          | Inr r \<Rightarrow>
              if \<not> ok r then Str networkIssue
              else (case json r of
                      Inl e \<Rightarrow> Str networkIssue
                    | Inr result \<Rightarrow>
                        if nullish result then Str networkIssue
                        else if truthy (replyText result) then replyText result
                        else Str couldNotGenerate))"
  by (simp add: getGeminiResponse_def tryBlock_def extractText_eq split: sum.splits)

lemma getGeminiResponse_resolves: "\<exists>v. getGeminiResponse fetch apiKey userMessage = Inr v"
  by (simp add: getGeminiResponse_eq)

lemma networkIssue_not_empty: "networkIssue \<noteq> []"
  by (simp add: networkIssue_def js_def)

lemma couldNotGenerate_not_empty: "couldNotGenerate \<noteq> []"
  by (simp add: couldNotGenerate_def js_def)

lemma networkIssue_not_couldNotGenerate: "networkIssue \<noteq> couldNotGenerate"
  by (simp add: networkIssue_def couldNotGenerate_def js_def)

lemma getGeminiResponse_respondWith:
  "getGeminiResponse (respondWith r) apiKey userMessage =
     Inr (if \<not> ok r then Str networkIssue
          else (case json r of
                  Inl e \<Rightarrow> Str networkIssue
                | Inr result \<Rightarrow>
                    if nullish result then Str networkIssue
                    else if truthy (replyText result) then replyText result
                    else Str couldNotGenerate))"
  by (simp add: getGeminiResponse_eq respondWith_def)

lemma replyText_nullish: "nullish v \<Longrightarrow> replyText v = Undefined"
  by (cases v) (simp_all add: replyText_def candidateText_def)

lemma replyText_empty_object [simp]: "replyText (Obj []) = Undefined"
  by (simp add: replyText_def candidateText_def)

lemma replyText_bodyWithText: "replyText (bodyWithText t) = t"
  by (simp add: replyText_def candidateText_def bodyWithText_def js_def)

lemma bodyWithText_not_nullish [simp]: "\<not> nullish (bodyWithText t)"
  by (simp add: bodyWithText_def)

lemma getBotResponse_resolves: "\<exists>v. getBotResponse fetch apiKey userMessage m = Inr v"
  by (simp add: getBotResponse_def getGeminiResponse_eq getOpenAIResponse_def)

lemma getBotResponse_unknown_model:
  "m \<notin> {js ''gemini'', js ''chatgpt'', js ''claude''} \<Longrightarrow>
   getBotResponse fetch apiKey userMessage m = Inr (Str unknownModelReply)"
  by (simp add: getBotResponse_def)

subsection \<open>Trimming\<close>

lemma trim_empty_iff: "trim s = [] \<longleftrightarrow> list_all isWhiteSpace s"
proof
  assume "trim s = []"
  then have all: "\<forall>x\<in>set (dropWhile isWhiteSpace s). isWhiteSpace x"
    by (simp add: trim_def dropWhile_eq_Nil_conv)
  have "dropWhile isWhiteSpace s = []"
  proof (rule ccontr)
    assume ne: "dropWhile isWhiteSpace s \<noteq> []"
    then have "\<not> isWhiteSpace (hd (dropWhile isWhiteSpace s))" by (rule hd_dropWhile)
    moreover from ne have "hd (dropWhile isWhiteSpace s) \<in> set (dropWhile isWhiteSpace s)"
      by (rule hd_in_set)
    ultimately show False using all by blast
  qed
  then show "list_all isWhiteSpace s"
    by (simp add: dropWhile_eq_Nil_conv list_all_iff)
next
  assume "list_all isWhiteSpace s"
  then have "dropWhile isWhiteSpace s = []"
    by (simp add: list_all_iff)
  then show "trim s = []"
    unfolding trim_def by (simp only: rev.simps dropWhile.simps)
qed

lemma trim_hello: "trim (js ''hello'') = js ''hello''"
  by (simp add: trim_def js_def isWhiteSpace_def)

subsection \<open>Timers\<close>

lemma handleSendMessage_nonblank:
  "trim (input s) \<noteq> [] \<Longrightarrow>
   handleSendMessage s =
     s\<lparr>messages := messages s @ [\<lparr>text' = Str (trim (input s)), sender = User, model = None\<rparr>],
       input := [],
       isTyping := True,
       timers := timers s @ [(nextTimerId s, trim (input s), selectedModel s)],
       nextTimerId := Suc (nextTimerId s)\<rparr>"
  by (simp add: handleSendMessage_def Let_def)

lemma fresh_timer_unregistered: "timersFresh s \<Longrightarrow> map_of (timers s) (nextTimerId s) = None"
  by (auto simp: timersFresh_def list_all_iff map_of_eq_None_iff)

lemma handleSendMessage_registers:
  assumes "trim (input s) \<noteq> []" and "timersFresh s"
  shows "map_of (timers (handleSendMessage s)) (nextTimerId s) =
           Some (trim (input s), selectedModel s)"
  using assms by (simp add: handleSendMessage_nonblank fresh_timer_unregistered map_add_def)

lemma completeTimer_registered:
  assumes "map_of (timers s) i = Some (t, m)"
    and "getBotResponse fetch apiKey t m = Inr reply"
  shows "completeTimer apiKey i fetch s =
           s\<lparr>timers := filter (\<lambda>t. fst t \<noteq> i) (timers s),
             messages := messages s @ [\<lparr>text' = reply, sender = Bot, model = Some m\<rparr>],
             isTyping := False,
             mounted := mounted s \<and> renders s \<and> validChild reply\<rparr>"
  using assms by (simp add: completeTimer_def timerCallback_def Let_def renders_def)

lemma map_of_filter_other:
  "i \<noteq> j \<Longrightarrow> map_of (filter (\<lambda>t. fst t \<noteq> j) xs) i = map_of xs i"
  by (induction xs) auto

lemma timers_timerCallback [simp]:
  "timers (timerCallback fetch apiKey t m s) = timers s"
  by (simp add: timerCallback_def Let_def split: sum.splits)

text \<open>A registered timer stays registered, with its closure, until it completes.\<close>

lemma step_keeps_timer:
  assumes "map_of (timers s) i = Some c" and "\<not> completes i e"
  shows "map_of (timers (step apiKey e s)) i = Some c"
proof (cases e)
  case SendMessage
  with assms show ?thesis
    by (cases "trim (input s) = []") (simp_all add: handleSendMessage_def Let_def map_add_def)
next
  case (ModelChange m)
  with assms show ?thesis by (simp add: handleModelChange_def)
next
  case (InputChange v)
  with assms show ?thesis by simp
next
  case (TimerCompletes j f)
  with assms have "i \<noteq> j" by simp
  with assms TimerCompletes show ?thesis
    by (simp add: completeTimer_def map_of_filter_other split: option.splits)
qed

lemma run_keeps_timer:
  "map_of (timers s) i = Some c \<Longrightarrow> \<forall>e\<in>set evs. \<not> completes i e \<Longrightarrow>
   map_of (timers (run apiKey evs s)) i = Some c"
proof (induction evs arbitrary: s)
  case Nil
  then show ?case by simp
next
  case (Cons e evs)
  from Cons.prems have "map_of (timers (step apiKey e s)) i = Some c"
    by (intro step_keeps_timer) simp_all
  with Cons show ?case by simp
qed

text \<open>The freshness of timer identifiers holds initially and is kept by every event.\<close>

lemma timersFresh_initialState: "timersFresh initialState"
  by (simp add: initialState_def timersFresh_def)

lemma timersFresh_step: "timersFresh s \<Longrightarrow> timersFresh (step apiKey e s)"
proof (cases e)
  case SendMessage
  assume "timersFresh s"
  with SendMessage show ?thesis
    by (auto simp: timersFresh_def handleSendMessage_def Let_def list_all_iff)
next
  case (ModelChange m)
  assume "timersFresh s"
  with ModelChange show ?thesis by (simp add: timersFresh_def handleModelChange_def)
next
  case (InputChange v)
  assume "timersFresh s"
  with InputChange show ?thesis by (simp add: timersFresh_def)
next
  case (TimerCompletes i f)
  assume "timersFresh s"
  with TimerCompletes show ?thesis
    by (auto simp: timersFresh_def completeTimer_def timerCallback_def Let_def list_all_iff
          split: option.splits sum.splits)
qed

lemma timersFresh_run: "timersFresh s \<Longrightarrow> timersFresh (run apiKey evs s)"
  by (induction evs arbitrary: s) (simp_all add: timersFresh_step)

section \<open>The claims\<close>

subsection \<open>C1: one exchange\<close>

text \<open>
  Claim C1 says that every exchange with a non-blank input ends with the user message
  and the bot message in the list and \<open>isTyping\<close> false. The code does not do so on
  the following input: \<^verbatim>\<open>"hi"\<close> is submitted with \<^verbatim>\<open>gemini\<close> selected, and
  the response has status 200 and an object for the text of its first candidate.
  Line 106 returns the object, line 154 stores it as the text of the bot message, and
  the render of that message at line 54 throws: the component is unmounted, and the
  list with the two messages is never shown.
\<close>

theorem exchange_unmounts_on_object_reply:
  "mounted hiState \<and>
   getBotResponse objectReplyFetch (js ''key'') (js ''hi'') (js ''gemini'') = Inr objectReply \<and>
   messages (run (js ''key'') [SendMessage, TimerCompletes 1 objectReplyFetch] hiState) =
     [\<lparr>text' = Str (js ''hi''), sender = User, model = None\<rparr>,
      \<lparr>text' = objectReply, sender = Bot, model = Some (js ''gemini'')\<rparr>] \<and>
   \<not> mounted (run (js ''key'') [SendMessage, TimerCompletes 1 objectReplyFetch] hiState)"
proof -
  have trimmed: "trim (js ''hi'') = js ''hi''"
    by (simp add: trim_def js_def isWhiteSpace_def)
  have nonblank: "js ''hi'' \<noteq> []"
    by (simp add: js_def)
  have reply: "getBotResponse objectReplyFetch (js ''key'') (js ''hi'') (js ''gemini'') =
      Inr objectReply"
    by (simp add: getBotResponse_def objectReplyFetch_def getGeminiResponse_respondWith ok_def
          replyText_bodyWithText objectReply_def)
  have sent: "handleSendMessage hiState =
      initialState\<lparr>messages := [\<lparr>text' = Str (js ''hi''), sender = User, model = None\<rparr>],
        isTyping := True, timers := [(1, js ''hi'', js ''gemini'')], nextTimerId := 2\<rparr>"
    using nonblank
    by (simp add: handleSendMessage_def hiState_def initialState_def trimmed Let_def)
  have invalid: "\<not> validChild objectReply"
    by (simp add: objectReply_def)
  show ?thesis
    using reply invalid
    by (simp add: sent completeTimer_def timerCallback_def Let_def renders_def)
       (simp add: hiState_def initialState_def)
qed

text \<open>
  Everywhere else the exchange is as the claim says. For a submission with a non-blank
  input in a mounted state that renders, the user message is appended and then the bot
  message, \<open>isTyping\<close> ends false, and the component stays mounted exactly when the
  reply is a valid child. \<open>timersFresh\<close> holds in every state the component reaches
  (\<open>timersFresh_initialState\<close>, \<open>timersFresh_run\<close>).
\<close>

lemma exchange_appends_mounted_iff_valid:
  assumes "trim (input s) \<noteq> []" and "timersFresh s" and "mounted s" and "renders s"
  shows "\<exists>reply.
     getBotResponse fetch apiKey (trim (input s)) (selectedModel s) = Inr reply \<and>
     messages (handleSendMessage s) =
       messages s @ [\<lparr>text' = Str (trim (input s)), sender = User, model = None\<rparr>] \<and>
     isTyping (handleSendMessage s) \<and>
     messages (run apiKey [SendMessage, TimerCompletes (nextTimerId s) fetch] s) =
       messages s @ [\<lparr>text' = Str (trim (input s)), sender = User, model = None\<rparr>,
                     \<lparr>text' = reply, sender = Bot, model = Some (selectedModel s)\<rparr>] \<and>
     \<not> isTyping (run apiKey [SendMessage, TimerCompletes (nextTimerId s) fetch] s) \<and>
     mounted (run apiKey [SendMessage, TimerCompletes (nextTimerId s) fetch] s) = validChild reply"
proof -
  obtain reply where r: "getBotResponse fetch apiKey (trim (input s)) (selectedModel s) = Inr reply"
    using getBotResponse_resolves by blast
  from assms(1,2) have reg: "map_of (timers (handleSendMessage s)) (nextTimerId s) =
      Some (trim (input s), selectedModel s)"
    by (rule handleSendMessage_registers)
  have "run apiKey [SendMessage, TimerCompletes (nextTimerId s) fetch] s =
      completeTimer apiKey (nextTimerId s) fetch (handleSendMessage s)"
    by simp
  also note completeTimer_registered [OF reg r]
  finally have ran: "run apiKey [SendMessage, TimerCompletes (nextTimerId s) fetch] s =
      (handleSendMessage s)
        \<lparr>timers := filter (\<lambda>t. fst t \<noteq> nextTimerId s) (timers (handleSendMessage s)),
          messages := messages (handleSendMessage s) @
            [\<lparr>text' = reply, sender = Bot, model = Some (selectedModel s)\<rparr>],
          isTyping := False,
          mounted := mounted (handleSendMessage s) \<and> renders (handleSendMessage s) \<and>
            validChild reply\<rparr>" .
  from assms(1) have sent: "messages (handleSendMessage s) =
      messages s @ [\<lparr>text' = Str (trim (input s)), sender = User, model = None\<rparr>]"
    and typing: "isTyping (handleSendMessage s)"
    and still: "mounted (handleSendMessage s) = mounted s"
    by (simp_all add: handleSendMessage_nonblank)
  from sent assms(4) have shown: "renders (handleSendMessage s)"
    by (simp add: renders_def)
  from r sent typing still shown assms(3) show ?thesis
    unfolding ran by (intro exI [of _ reply]) simp
qed

text \<open>
  The example of the specification: \<^verbatim>\<open>"hello"\<close> submitted with \<^verbatim>\<open>chatgpt\<close>
  selected, on an empty log.
\<close>

lemma exchange_hello_chatgpt:
  "messages (run (js ''key'') [SendMessage, TimerCompletes 1 (fetchRejects TypeError)] helloState) =
     [\<lparr>text' = Str (js ''hello''), sender = User, model = None\<rparr>,
      \<lparr>text' = Str chatgptReply, sender = Bot, model = Some (js ''chatgpt'')\<rparr>] \<and>
   \<not> isTyping (run (js ''key'') [SendMessage, TimerCompletes 1 (fetchRejects TypeError)] helloState) \<and>
   mounted (run (js ''key'') [SendMessage, TimerCompletes 1 (fetchRejects TypeError)] helloState)"
proof -
  have nonblank: "trim (input helloState) \<noteq> []"
    by (simp add: helloState_def initialState_def trim_hello) (simp add: js_def)
  have fresh: "timersFresh helloState"
    by (simp add: helloState_def initialState_def timersFresh_def)
  have shown: "mounted helloState" "renders helloState"
    by (simp_all add: helloState_def initialState_def renders_def)
  have reply: "getBotResponse (fetchRejects TypeError) (js ''key'') (trim (input helloState))
      (selectedModel helloState) = Inr (Str chatgptReply)"
    by (simp add: helloState_def initialState_def getBotResponse_def getOpenAIResponse_def js_def)
  have "nextTimerId helloState = 1" "messages helloState = []"
    "trim (input helloState) = js ''hello''" "selectedModel helloState = js ''chatgpt''"
    by (simp_all add: helloState_def initialState_def trim_hello)
  with exchange_appends_mounted_iff_valid
         [OF nonblank fresh shown, of "fetchRejects TypeError" "js ''key''"] reply
  show ?thesis by auto
qed

subsection \<open>C2: failures of the live provider\<close>

text \<open>
  Claim C2. The promise of \<open>getGeminiResponse\<close> always resolves, and it resolves to
  the network-issue string when \<open>fetch\<close> rejects, when the status is outside 200 to
  299, and when \<^verbatim>\<open>response.json()\<close> rejects.
\<close>

theorem live_provider_failures_give_network_fallback:
  "(\<exists>v. getGeminiResponse fetch apiKey userMessage = Inr v) \<and>
   ((\<exists>e. fetch (geminiRequest apiKey userMessage) = Inl e) \<or>
    (\<exists>r. fetch (geminiRequest apiKey userMessage) = Inr r \<and>
         (\<not> ok r \<or> (\<exists>e. json r = Inl e)))
    \<longrightarrow> getGeminiResponse fetch apiKey userMessage = Inr (Str networkIssue))"
  by (auto simp: getGeminiResponse_eq)

text \<open>Status 500, a rejected \<open>fetch\<close>, and a body that does not parse.\<close>

theorem live_provider_failures_give_network_fallback_witness:
  "\<not> ok \<lparr>status = 500, json = Inr (Obj [])\<rparr> \<and>
   getGeminiResponse (respondWith \<lparr>status = 500, json = Inr (Obj [])\<rparr>) (js ''key'') (js ''hello'')
     = Inr (Str networkIssue) \<and>
   getGeminiResponse (fetchRejects TypeError) (js ''key'') (js ''hello'')
     = Inr (Str networkIssue) \<and>
   getGeminiResponse (respondWith \<lparr>status = 200, json = Inl SyntaxError\<rparr>) (js ''key'') (js ''hello'')
     = Inr (Str networkIssue)"
  using live_provider_failures_give_network_fallback
          [of "respondWith \<lparr>status = 500, json = Inr (Obj [])\<rparr>" "js ''key''" "js ''hello''"]
        live_provider_failures_give_network_fallback
          [of "fetchRejects TypeError" "js ''key''" "js ''hello''"]
        live_provider_failures_give_network_fallback
          [of "respondWith \<lparr>status = 200, json = Inl SyntaxError\<rparr>" "js ''key''" "js ''hello''"]
  by (simp add: ok_def respondWith_def fetchRejects_def)

subsection \<open>C3: a successful response of the live provider\<close>

text \<open>
  Claim C3, as amended. On a response with a status from 200 to 299 whose body parsed
  to a value other than \<^verbatim>\<open>null\<close>: a non-empty string at the reply path is
  returned as it is, and when the path is absent or holds a falsy value (the empty
  string among them) the could-not-generate string is returned.
\<close>

theorem live_success_returns_text_or_fallback:
  assumes "fetch (geminiRequest apiKey userMessage) = Inr r"
    and "ok r" and "json r = Inr result" and "\<not> nullish result"
  shows "(\<forall>s. replyText result = Str s \<and> s \<noteq> [] \<longrightarrow>
            getGeminiResponse fetch apiKey userMessage = Inr (Str s)) \<and>
         (\<not> truthy (replyText result) \<longrightarrow>
            getGeminiResponse fetch apiKey userMessage = Inr (Str couldNotGenerate))"
  using assms by (simp add: getGeminiResponse_eq)

text \<open>
  Scenarios A and C of the specification: the body with the text \<^verbatim>\<open>"Hi there"\<close>,
  and the body \<^verbatim>\<open>{}\<close>.
\<close>

theorem live_success_returns_text_or_fallback_witness:
  "getGeminiResponse (respondWith \<lparr>status = 200, json = Inr (bodyWithText (Str (js ''Hi there'')))\<rparr>)
      (js ''key'') (js ''hello'') = Inr (Str (js ''Hi there'')) \<and>
   getGeminiResponse (respondWith \<lparr>status = 200, json = Inr (Obj [])\<rparr>)
      (js ''key'') (js ''hello'') = Inr (Str couldNotGenerate)"
  using live_success_returns_text_or_fallback
          [of "respondWith \<lparr>status = 200, json = Inr (bodyWithText (Str (js ''Hi there'')))\<rparr>"
              "js ''key''" "js ''hello''"
              "\<lparr>status = 200, json = Inr (bodyWithText (Str (js ''Hi there'')))\<rparr>"
              "bodyWithText (Str (js ''Hi there''))"]
        live_success_returns_text_or_fallback
          [of "respondWith \<lparr>status = 200, json = Inr (Obj [])\<rparr>"
              "js ''key''" "js ''hello''" "\<lparr>status = 200, json = Inr (Obj [])\<rparr>" "Obj []"]
  by (simp add: respondWith_def ok_def replyText_bodyWithText js_def)

text \<open>
  Claim C3 as stated fails on status 200 at three bodies. With the empty string at
  the reply path, the result is not that text. With the body \<^verbatim>\<open>null\<close> the path
  is absent, and reading \<^verbatim>\<open>result.candidates\<close> throws, so the result is the
  network-issue string. With the number 42 at the reply path, which is no text, the
  number is returned.
\<close>

theorem live_success_counterexample:
  "replyText (bodyWithText (Str [])) = Str [] \<and>
   getGeminiResponse (respondWith \<lparr>status = 200, json = Inr (bodyWithText (Str []))\<rparr>)
      (js ''key'') (js ''hello'') \<noteq> Inr (Str []) \<and>
   replyText Null = Undefined \<and>
   getGeminiResponse (respondWith \<lparr>status = 200, json = Inr Null\<rparr>)
      (js ''key'') (js ''hello'') \<noteq> Inr (Str couldNotGenerate) \<and>
   \<not> isStr (replyText (bodyWithText (Num (Finite False 42 0)))) \<and>
   getGeminiResponse (respondWith \<lparr>status = 200, json = Inr (bodyWithText (Num (Finite False 42 0)))\<rparr>)
      (js ''key'') (js ''hello'') \<noteq> Inr (Str couldNotGenerate)"
  by (simp add: getGeminiResponse_respondWith ok_def replyText_bodyWithText replyText_nullish
        couldNotGenerate_not_empty networkIssue_not_couldNotGenerate)

subsection \<open>C4: the router never raises\<close>

text \<open>
  Claim C4 says that \<open>getBotResponse\<close> returns a string and never raises, and the
  fixed string for an unknown model. The promise does resolve on every input
  (\<open>getBotResponse_resolves\<close>) and the \<^verbatim>\<open>default\<close> branch gives the fixed string
  (\<open>getBotResponse_unknown_model\<close>), but the value is not always a string, although
  the function is declared to return \<^verbatim>\<open>Promise<string>\<close>. With \<^verbatim>\<open>gemini\<close>
  and a response of status 200 whose reply path holds the number 42, line 106 returns
  that number.
\<close>

theorem getBotResponse_returns_number_for_live_reply:
  "getBotResponse numberReplyFetch (js ''key'') (js ''hello'') (js ''gemini'') =
     Inr (Num (Finite False 42 0)) \<and>
   \<not> isStr (Num (Finite False 42 0))"
  by (simp add: getBotResponse_def numberReplyFetch_def getGeminiResponse_respondWith ok_def
        replyText_bodyWithText)

subsection \<open>C5: the simulated providers\<close>

text \<open>
  Claim C5. For \<^verbatim>\<open>chatgpt\<close> and \<^verbatim>\<open>claude\<close> the result of
  \<open>getBotResponse\<close> does not depend on the user text (nor on the network), it is the
  fixed reply of that provider, and the promise always resolves.
\<close>

theorem simulated_providers_fixed_reply:
  "getBotResponse fetch1 apiKey1 t1 (js ''chatgpt'') =
     getBotResponse fetch2 apiKey2 t2 (js ''chatgpt'') \<and>
   getBotResponse fetch1 apiKey1 t1 (js ''claude'') =
     getBotResponse fetch2 apiKey2 t2 (js ''claude'') \<and>
   getBotResponse fetch1 apiKey1 t1 (js ''chatgpt'') = Inr (Str chatgptReply) \<and>
   getBotResponse fetch1 apiKey1 t1 (js ''claude'') = Inr (Str claudeReply) \<and>
   getOpenAIResponse = Inr (Str chatgptReply)"
  by (simp add: getBotResponse_def getOpenAIResponse_def js_def)

subsection \<open>C6: the tag of a bot message\<close>

text \<open>
  Claim C6. Let a non-blank input be submitted in state \<open>s\<close>, and let any events
  follow that do not complete the timer of this submission: model changes, edits of
  the input, further submissions, completions of other timers. When the timer then
  completes, the bot message it appends carries the model that was selected in \<open>s\<close>,
  and its text is the reply to the input trimmed in \<open>s\<close>.
\<close>

theorem bot_message_tagged_with_model_at_submission:
  assumes "trim (input s) \<noteq> []" and "timersFresh s"
    and "\<forall>e\<in>set evs. \<not> completes (nextTimerId s) e"
  shows "\<exists>reply.
     getBotResponse fetch apiKey (trim (input s)) (selectedModel s) = Inr reply \<and>
     messages (step apiKey (TimerCompletes (nextTimerId s) fetch)
                 (run apiKey evs (handleSendMessage s))) =
       messages (run apiKey evs (handleSendMessage s)) @
         [\<lparr>text' = reply, sender = Bot, model = Some (selectedModel s)\<rparr>]"
proof -
  obtain reply where r: "getBotResponse fetch apiKey (trim (input s)) (selectedModel s) = Inr reply"
    using getBotResponse_resolves by blast
  from assms(1,2) have "map_of (timers (handleSendMessage s)) (nextTimerId s) =
      Some (trim (input s), selectedModel s)"
    by (rule handleSendMessage_registers)
  then have "map_of (timers (run apiKey evs (handleSendMessage s))) (nextTimerId s) =
      Some (trim (input s), selectedModel s)"
    using assms(3) by (rule run_keeps_timer)
  from completeTimer_registered [OF this r] r show ?thesis
    by (intro exI [of _ reply]) simp
qed

text \<open>
  \<^verbatim>\<open>"hi"\<close> is submitted with \<^verbatim>\<open>gemini\<close> selected, \<^verbatim>\<open>claude\<close> is
  selected while the reply is awaited, and the reply is tagged \<^verbatim>\<open>gemini\<close>.
\<close>

theorem bot_message_tagged_with_model_at_submission_witness:
  "trim (input hiState) \<noteq> [] \<and> timersFresh hiState \<and>
   \<not> completes (nextTimerId hiState) (ModelChange (js ''claude'')) \<and>
   selectedModel hiState = js ''gemini'' \<and>
   selectedModel (run (js ''key'') [ModelChange (js ''claude'')] (handleSendMessage hiState))
     = js ''claude'' \<and>
   messages (run (js ''key'')
      [SendMessage, ModelChange (js ''claude''), TimerCompletes 1 (fetchRejects TypeError)] hiState) =
     [\<lparr>text' = Str networkIssue, sender = Bot, model = Some (js ''gemini'')\<rparr>]"
proof -
  have nonblank: "trim (input hiState) \<noteq> []"
    by (simp add: hiState_def initialState_def trim_def js_def isWhiteSpace_def)
  have fresh: "timersFresh hiState"
    by (simp add: hiState_def initialState_def timersFresh_def)
  have quiet: "\<forall>e\<in>set [ModelChange (js ''claude'')]. \<not> completes (nextTimerId hiState) e"
    by simp
  have reply: "getBotResponse (fetchRejects TypeError) (js ''key'') (trim (input hiState))
      (selectedModel hiState) = Inr (Str networkIssue)"
    by (simp add: hiState_def initialState_def getBotResponse_def getGeminiResponse_eq
          fetchRejects_def)
  have facts: "nextTimerId hiState = 1" "selectedModel hiState = js ''gemini''"
    by (simp_all add: hiState_def initialState_def)
  have cleared:
    "messages (run (js ''key'') [ModelChange (js ''claude'')] (handleSendMessage hiState)) = []"
    and switched:
    "selectedModel (run (js ''key'') [ModelChange (js ''claude'')] (handleSendMessage hiState))
       = js ''claude''"
    by (simp_all add: handleModelChange_def)
  from bot_message_tagged_with_model_at_submission
         [OF nonblank fresh quiet, of "fetchRejects TypeError" "js ''key''"]
       reply facts cleared switched nonblank fresh
  show ?thesis by auto
qed

subsection \<open>C7 and C10: changing the model\<close>

text \<open>
  Claim C7. In every state, \<open>handleModelChange\<close> leaves the list of messages empty
  and selects the given model.
\<close>

theorem model_change_clears_messages:
  "messages (handleModelChange m s) = [] \<and>
   messages (step apiKey (ModelChange m) s) = [] \<and>
   selectedModel (handleModelChange m s) = m"
  by (simp add: handleModelChange_def)

text \<open>
  Claim C10. \<open>handleModelChange\<close> with the model that is selected already still
  empties the list of messages, and changes nothing else: \<open>isTyping\<close> and the
  input keep their values.
\<close>

theorem model_change_same_model_still_clears:
  "messages (handleModelChange (selectedModel s) s) = [] \<and>
   isTyping (handleModelChange (selectedModel s) s) = isTyping s \<and>
   input (handleModelChange (selectedModel s) s) = input s \<and>
   handleModelChange (selectedModel s) s = s\<lparr>messages := []\<rparr>"
  by (simp add: handleModelChange_def)

subsection \<open>C8: a blank submission\<close>

text \<open>
  Claim C8. The trimmed input is empty exactly when every code unit of the input is
  white space, and then \<open>handleSendMessage\<close> returns the state as it was: the
  messages and \<open>isTyping\<close> are unchanged, and no timer is registered.
\<close>

theorem blank_submission_ignored:
  "(trim (input s) = [] \<longleftrightarrow> list_all isWhiteSpace (input s)) \<and>
   (trim (input s) = [] \<longrightarrow>
      handleSendMessage s = s \<and>
      messages (handleSendMessage s) = messages s \<and>
      isTyping (handleSendMessage s) = isTyping s)"
  by (simp add: trim_empty_iff handleSendMessage_def)

text \<open>An input of white space only, and the empty input.\<close>

theorem blank_submission_ignored_witness:
  "trim (input (initialState\<lparr>input := blankInput\<rparr>)) = [] \<and>
   handleSendMessage (initialState\<lparr>input := blankInput\<rparr>) = initialState\<lparr>input := blankInput\<rparr> \<and>
   trim (input initialState) = [] \<and>
   handleSendMessage initialState = initialState"
  using blank_submission_ignored [of "initialState\<lparr>input := blankInput\<rparr>"]
        blank_submission_ignored [of initialState]
  by (simp add: initialState_def blankInput_def isWhiteSpace_def)

subsection \<open>C9: an empty reply text\<close>

text \<open>
  Claim C9. On a response with a status from 200 to 299 whose reply path holds the
  empty string, \<open>getGeminiResponse\<close> resolves to the could-not-generate string; and
  on no input at all does it resolve to the empty string.
\<close>

theorem live_empty_text_gives_fallback:
  "(fetch (geminiRequest apiKey userMessage) = Inr r \<and> ok r \<and> json r = Inr result \<and>
      replyText result = Str []
    \<longrightarrow> getGeminiResponse fetch apiKey userMessage = Inr (Str couldNotGenerate)) \<and>
   getGeminiResponse fetch apiKey userMessage \<noteq> Inr (Str [])"
proof (intro conjI impI)
  assume a: "fetch (geminiRequest apiKey userMessage) = Inr r \<and> ok r \<and> json r = Inr result \<and>
      replyText result = Str []"
  then have "\<not> nullish result" by (auto dest: replyText_nullish)
  with a show "getGeminiResponse fetch apiKey userMessage = Inr (Str couldNotGenerate)"
    by (simp add: getGeminiResponse_eq)
next
  have "truthy v \<Longrightarrow> v \<noteq> Str []" for v by auto
  then show "getGeminiResponse fetch apiKey userMessage \<noteq> Inr (Str [])"
    by (auto simp: getGeminiResponse_eq networkIssue_not_empty couldNotGenerate_not_empty
          split: sum.splits)
qed

text \<open>The body \<^verbatim>\<open>{"candidates":[{"content":{"parts":[{"text":""}]}}]}\<close>.\<close>

theorem live_empty_text_gives_fallback_witness:
  "replyText (bodyWithText (Str [])) = Str [] \<and>
   getGeminiResponse (respondWith \<lparr>status = 200, json = Inr (bodyWithText (Str []))\<rparr>)
      (js ''key'') (js ''hello'') = Inr (Str couldNotGenerate)"
  using live_empty_text_gives_fallback
          [of "respondWith \<lparr>status = 200, json = Inr (bodyWithText (Str []))\<rparr>"
              "js ''key''" "js ''hello''" "\<lparr>status = 200, json = Inr (bodyWithText (Str []))\<rparr>"
              "bodyWithText (Str [])"]
  by (simp add: respondWith_def ok_def replyText_bodyWithText)

end
